theory Spec2Isabelle
  imports Complex_Main "HOL-Library.Word"
begin

section \<open>Micromagnetic core-shell form factor (micromagnetic\_FF\_3D.c)\<close>

text \<open>
  The C kernel computes with \<open>double\<close>. The embedding reads every \<open>double\<close> as a
  real number and every arithmetic operator as the exact operation on reals, so
  the theorems below are about the formulas the code writes down, with the
  operators in the order and association in which the C expression parses.
  A C division whose divisor is zero has no real value; every theorem whose
  statement depends on such a division carries the hypothesis that the divisor
  is non-zero.

  Literals: \<open>1.0e-6\<close> is \<open>1 / 10 ^ 6\<close>, \<open>1.0e-8\<close> is \<open>1 / 10 ^ 8\<close>,
  \<open>1.0e-16\<close> is \<open>1 / 10 ^ 16\<close>, \<open>1.0e-4\<close> is \<open>1 / 10 ^ 4\<close>.
\<close>

subsection \<open>Macros of the kernel header\<close>

text \<open>
  Modelled from the spec: the macros \<open>MAG_VEC\<close>, \<open>square\<close>, \<open>cube\<close>,
  \<open>M_PI\<close> and \<open>M_4PI_3\<close> are used by the file but declared in the kernel header,
  which is not part of the sources. The spec reads \<open>MAG_VEC(x, y, z)\<close> as the
  magnitude \<open>|(x, y, z)|\<close> of the vector, \<open>M_PI\<close> as \<open>\<pi>\<close> and
  \<open>M_4PI_3\<close> as \<open>4\<pi>/3\<close>.
\<close>

definition MAG_VEC :: "real \<Rightarrow> real \<Rightarrow> real \<Rightarrow> real" where
  "MAG_VEC x y z = sqrt (x * x + y * y + z * z)"

definition square :: "real \<Rightarrow> real" where
  "square x = x * x"

definition cube :: "real \<Rightarrow> real" where
  "cube x = x * x * x"

definition M_PI :: real where
  "M_PI = pi"

definition M_4PI_3 :: real where
  "M_4PI_3 = 4 * pi / 3"

subsection \<open>Effective size\<close>

definition form_volume :: "real \<Rightarrow> real \<Rightarrow> real" where
  "form_volume radius thickness = M_4PI_3 * cube (radius + thickness)"

text \<open>
  \<open>switch (mode) { default: case 1: return radius + thickness; case 2: return radius; }\<close>:
  the label \<open>case 2\<close> is taken for \<open>mode == 2\<close>; \<open>case 1\<close> and every value
  without a label of its own (through \<open>default\<close>, which falls into \<open>case 1\<close>)
  reach the first return. \<open>mode\<close> is a C \<open>int\<close>, a 32-bit word.
\<close>

definition radius_effective :: "32 word \<Rightarrow> real \<Rightarrow> real \<Rightarrow> real" where
  "radius_effective mode radius thickness =
     (if mode = 2 then radius
      else if mode = 1 then radius + thickness
      else radius + thickness)"

subsection \<open>Susceptibility and DMI length\<close>

definition reduced_field :: "real \<Rightarrow> real \<Rightarrow> real \<Rightarrow> real \<Rightarrow> real" where
  "reduced_field q Ms Hi A =
     (if Hi > 1 / 10 ^ 6
      then Ms / (Hi + 2 * A * 4 * M_PI / Ms * q * q * 10)
      else Ms / (1 / 10 ^ 6 + 2 * A * 4 * M_PI / Ms * q * q * 10))"

definition DMI_length :: "real \<Rightarrow> real \<Rightarrow> real \<Rightarrow> real" where
  "DMI_length Ms D qval = 2 * D * 4 * M_PI / Ms / Ms * qval"

subsection \<open>Transverse magnetization components\<close>

definition fqMxreal ::
  "real \<Rightarrow> real \<Rightarrow> real \<Rightarrow> real \<Rightarrow> real \<Rightarrow> real \<Rightarrow> real \<Rightarrow> real \<Rightarrow> real \<Rightarrow> real \<Rightarrow> real" where
  "fqMxreal x y z Mz Hkx Hky Hi Ms A D =
     (let q = MAG_VEC x y z;
          f = reduced_field q Ms Hi A
                * (Hkx * (1 + reduced_field q Ms Hi A * y * y / q / q)
                   - Ms * Mz * x * z / q / q
                       * (1 + reduced_field q Ms Hi A * DMI_length Ms D q * DMI_length Ms D q)
                   - Hky * reduced_field q Ms Hi A * x * y / q / q)
                / (1 + reduced_field q Ms Hi A * (x * x + y * y) / q / q
                   - square (reduced_field q Ms Hi A * DMI_length Ms D z))
      in f)"

definition fqMximag ::
  "real \<Rightarrow> real \<Rightarrow> real \<Rightarrow> real \<Rightarrow> real \<Rightarrow> real \<Rightarrow> real \<Rightarrow> real \<Rightarrow> real \<Rightarrow> real \<Rightarrow> real" where
  "fqMximag x y z Mz Hkx Hky Hi Ms A D =
     (let q = MAG_VEC x y z;
          f = - reduced_field q Ms Hi A
                * (Ms * Mz * (1 + reduced_field q Ms Hi A) * DMI_length Ms D y
                   + Hky * reduced_field q Ms Hi A * DMI_length Ms D z)
                / (1 + reduced_field q Ms Hi A * (x * x + y * y) / q / q
                   - square (reduced_field q Ms Hi A * DMI_length Ms D z))
      in f)"

definition fqMyreal ::
  "real \<Rightarrow> real \<Rightarrow> real \<Rightarrow> real \<Rightarrow> real \<Rightarrow> real \<Rightarrow> real \<Rightarrow> real \<Rightarrow> real \<Rightarrow> real \<Rightarrow> real" where
  "fqMyreal x y z Mz Hkx Hky Hi Ms A D =
     (let q = MAG_VEC x y z;
          f = reduced_field q Ms Hi A
                * (Hky * (1 + reduced_field q Ms Hi A * x * x / q / q)
                   - Ms * Mz * y * z / q / q
                       * (1 + reduced_field q Ms Hi A * DMI_length Ms D q * DMI_length Ms D q)
                   - Hkx * reduced_field q Ms Hi A * x * y / q / q)
                / (1 + reduced_field q Ms Hi A * (x * x + y * y) / q / q
                   - square (reduced_field q Ms Hi A * DMI_length Ms D z))
      in f)"

definition fqMyimag ::
  "real \<Rightarrow> real \<Rightarrow> real \<Rightarrow> real \<Rightarrow> real \<Rightarrow> real \<Rightarrow> real \<Rightarrow> real \<Rightarrow> real \<Rightarrow> real \<Rightarrow> real" where
  "fqMyimag x y z Mz Hkx Hky Hi Ms A D =
     (let q = MAG_VEC x y z;
          f = reduced_field q Ms Hi A
                * (Ms * Mz * (1 + reduced_field q Ms Hi A) * DMI_length Ms D x
                   - Hkx * reduced_field q Ms Hi A * DMI_length Ms D z)
                / (1 + reduced_field q Ms Hi A * (x * x + y * y) / q / q
                   - square (reduced_field q Ms Hi A * DMI_length Ms D z))
      in f)"

subsection \<open>Library functions and tables used by the evaluators\<close>

text \<open>
  \<open>core_shell_fq\<close>, \<open>set_scatvec\<close>, \<open>set_weights\<close>, \<open>mag_sld\<close> and the
  Gauss-Legendre table \<open>GAUSS_N\<close>, \<open>GAUSS_Z\<close>, \<open>GAUSS_W\<close> are called by the file
  and defined outside it. They are parameters of the model: a function that
  fills an output array returns the array (\<open>qrot\<close> of 3 entries, \<open>weights\<close>
  and \<open>sld\<close> of 8 entries) as a list.
\<close>

record kernel_lib =
  core_shell_fq :: "real \<Rightarrow> real \<Rightarrow> real \<Rightarrow> real \<Rightarrow> real \<Rightarrow> real \<Rightarrow> real"
  set_scatvec :: "real \<Rightarrow> real \<Rightarrow> real \<Rightarrow> real \<Rightarrow> real \<Rightarrow> real list"
  set_weights :: "real \<Rightarrow> real \<Rightarrow> real list"
  mag_sld ::
    "real \<Rightarrow> real \<Rightarrow> real \<Rightarrow> real \<Rightarrow> real \<Rightarrow> real \<Rightarrow> real \<Rightarrow> real \<Rightarrow> real \<Rightarrow> real \<Rightarrow> real list"
  GAUSS_N :: nat
  GAUSS_Z :: "real list"
  GAUSS_W :: "real list"

definition fq :: "kernel_lib \<Rightarrow> real \<Rightarrow> real \<Rightarrow> real \<Rightarrow> real \<Rightarrow> real \<Rightarrow> real \<Rightarrow> real" where
  "fq lib q radius thickness core_sld shell_sld solvent_sld =
     (let form = core_shell_fq lib q radius thickness core_sld shell_sld solvent_sld
      in form)"

subsection \<open>Orientation average and intensities\<close>

text \<open>
  The loop over the 8 polarization channels (lines 121 to 130 in \<open>Iqxy\<close>, the
  same text at lines 178 to 187 in \<open>Iq\<close>): \<open>form\<close> starts at 0 and channel
  \<open>xs\<close> adds \<open>weights[xs]*sld[xs]*sld[xs]\<close> under the guard
  \<open>weights[xs] > 1.0e-8\<close>.
\<close>

definition channel_step :: "real list \<Rightarrow> real list \<Rightarrow> nat \<Rightarrow> real \<Rightarrow> real" where
  "channel_step weights sld xs form =
     (if weights ! xs > 1 / 10 ^ 8
      then form + weights ! xs * sld ! xs * sld ! xs
      else form)"

definition channel_loop :: "real list \<Rightarrow> real list \<Rightarrow> real" where
  "channel_loop weights sld = fold (channel_step weights sld) [0..<8] 0"

text \<open>
  The loop over the easy-axis angle (lines 105 to 132 in \<open>Iqxy\<close>, the same text
  at lines 162 to 189 in \<open>Iq\<close>); its result is \<open>total_F2\<close>.
\<close>

definition gamma_step ::
  "kernel_lib \<Rightarrow> real \<Rightarrow> real \<Rightarrow> real \<Rightarrow> real \<Rightarrow> real \<Rightarrow> real \<Rightarrow> real \<Rightarrow> real
     \<Rightarrow> real list \<Rightarrow> real list \<Rightarrow> real \<Rightarrow> real \<Rightarrow> nat \<Rightarrow> real \<Rightarrow> real" where
  "gamma_step lib q radius thickness core_hk Hi Ms A D qrot weights mz nuc i total_F2 =
     (let gamma = M_PI * (GAUSS_Z lib ! i + 1);
          sin_gamma = sin gamma;
          cos_gamma = cos gamma;
          Hkx = fq lib q radius thickness core_hk 0 0 * sin_gamma;
          Hky = fq lib q radius thickness core_hk 0 0 * cos_gamma;
          mxreal = fqMxreal (qrot ! 0) (qrot ! 1) (qrot ! 2) mz Hkx Hky Hi Ms A D;
          mximag = fqMximag (qrot ! 0) (qrot ! 1) (qrot ! 2) mz Hkx Hky Hi Ms A D;
          myreal = fqMyreal (qrot ! 0) (qrot ! 1) (qrot ! 2) mz Hkx Hky Hi Ms A D;
          myimag = fqMyimag (qrot ! 0) (qrot ! 1) (qrot ! 2) mz Hkx Hky Hi Ms A D;
          sld = mag_sld lib (qrot ! 0) (qrot ! 1) (qrot ! 2)
                  mxreal mximag myreal myimag mz 0 nuc;
          form = channel_loop weights sld
      in total_F2 + GAUSS_W lib ! i * form)"

definition gamma_loop ::
  "kernel_lib \<Rightarrow> real \<Rightarrow> real \<Rightarrow> real \<Rightarrow> real \<Rightarrow> real \<Rightarrow> real \<Rightarrow> real \<Rightarrow> real
     \<Rightarrow> real list \<Rightarrow> real list \<Rightarrow> real \<Rightarrow> real \<Rightarrow> real" where
  "gamma_loop lib q radius thickness core_hk Hi Ms A D qrot weights mz nuc =
     fold (gamma_step lib q radius thickness core_hk Hi Ms A D qrot weights mz nuc)
       [0..<GAUSS_N lib] 0"

text \<open>
  \<open>Iqxy\<close> has one \<open>return\<close>, inside \<open>if (q > 1.0e-16) { ... }\<close>. When the
  test fails, control reaches the closing brace of a function declared to
  return \<open>double\<close> without any \<open>return\<close>: the call has no defined value, which the
  model writes \<open>None\<close>.
\<close>

definition Iqxy ::
  "kernel_lib \<Rightarrow> real \<Rightarrow> real \<Rightarrow> real \<Rightarrow> real \<Rightarrow> real \<Rightarrow> real \<Rightarrow> real \<Rightarrow> real \<Rightarrow> real \<Rightarrow> real
     \<Rightarrow> real \<Rightarrow> real \<Rightarrow> real \<Rightarrow> real \<Rightarrow> real \<Rightarrow> real \<Rightarrow> real \<Rightarrow> real \<Rightarrow> real \<Rightarrow> real option" where
  "Iqxy lib qx qy radius thickness core_nuc shell_nuc solvent_nuc core_Ms shell_Ms solvent_Ms
        core_hk Hi Ms A D up_i up_f alpha beta =
     (let q = MAG_VEC qx qy 0 in
      if q > 1 / 10 ^ 16 then
        (let cos_theta = qx / q;
             sin_theta = qy / q;
             qrot = set_scatvec lib q cos_theta sin_theta alpha beta;
             weights = set_weights lib up_i up_f;
             mz = fq lib q radius thickness core_Ms shell_Ms solvent_Ms;
             nuc = fq lib q radius thickness core_nuc shell_nuc solvent_nuc;
             total_F2 = gamma_loop lib q radius thickness core_hk Hi Ms A D qrot weights mz nuc
         in Some (0.5 * (1 / 10 ^ 4) * total_F2))
      else None)"

definition theta_step ::
  "kernel_lib \<Rightarrow> real \<Rightarrow> real \<Rightarrow> real \<Rightarrow> real \<Rightarrow> real \<Rightarrow> real \<Rightarrow> real \<Rightarrow> real \<Rightarrow> real \<Rightarrow> real
     \<Rightarrow> real \<Rightarrow> real \<Rightarrow> real \<Rightarrow> real \<Rightarrow> real \<Rightarrow> real \<Rightarrow> real \<Rightarrow> real \<Rightarrow> nat \<Rightarrow> real \<Rightarrow> real" where
  "theta_step lib q radius thickness core_nuc shell_nuc solvent_nuc core_Ms shell_Ms solvent_Ms
        core_hk Hi Ms A D up_i up_f alpha beta j total_F1D =
     (let theta = M_PI * (GAUSS_Z lib ! j + 1);
          sin_theta = sin theta;
          cos_theta = cos theta;
          qrot = set_scatvec lib q cos_theta sin_theta alpha beta;
          weights = set_weights lib up_i up_f;
          mz = fq lib q radius thickness core_Ms shell_Ms solvent_Ms;
          nuc = fq lib q radius thickness core_nuc shell_nuc solvent_nuc;
          total_F2 = gamma_loop lib q radius thickness core_hk Hi Ms A D qrot weights mz nuc
      in total_F1D + GAUSS_W lib ! j * total_F2)"

definition Iq ::
  "kernel_lib \<Rightarrow> real \<Rightarrow> real \<Rightarrow> real \<Rightarrow> real \<Rightarrow> real \<Rightarrow> real \<Rightarrow> real \<Rightarrow> real \<Rightarrow> real \<Rightarrow> real
     \<Rightarrow> real \<Rightarrow> real \<Rightarrow> real \<Rightarrow> real \<Rightarrow> real \<Rightarrow> real \<Rightarrow> real \<Rightarrow> real \<Rightarrow> real" where
  "Iq lib q radius thickness core_nuc shell_nuc solvent_nuc core_Ms shell_Ms solvent_Ms
        core_hk Hi Ms A D up_i up_f alpha beta =
     (let total_F1D =
            fold (theta_step lib q radius thickness core_nuc shell_nuc solvent_nuc
                    core_Ms shell_Ms solvent_Ms core_hk Hi Ms A D up_i up_f alpha beta)
              [0..<GAUSS_N lib] 0
      in 0.25 * (1 / 10 ^ 4) * total_F1D)"

subsection \<open>The formulas of the specification\<close>

text \<open>
  The denominator as the specification writes it,
  \<open>1 + \<chi>\<cdot>(x\<^sup>2 + y\<^sup>2)/q\<^sup>2 - (\<chi>\<cdot>DMI_length(Ms, D, z))\<^sup>2\<close> with
  \<open>\<chi> = reduced_field(q, Ms, Hi, A)\<close> and \<open>q = |(x, y, z)|\<close>. It has no
  argument \<open>Mz\<close>, \<open>Hkx\<close> or \<open>Hky\<close>.
\<close>

definition shared_denominator ::
  "real \<Rightarrow> real \<Rightarrow> real \<Rightarrow> real \<Rightarrow> real \<Rightarrow> real \<Rightarrow> real \<Rightarrow> real" where
  "shared_denominator x y z Hi Ms A D =
     (let q = MAG_VEC x y z; chi = reduced_field q Ms Hi A
      in 1 + chi * (x\<^sup>2 + y\<^sup>2) / q\<^sup>2 - (chi * DMI_length Ms D z)\<^sup>2)"

text \<open>
  The numerators: in each of the four functions, the C expression to the left of
  the last division.
\<close>

definition Mxreal_numerator ::
  "real \<Rightarrow> real \<Rightarrow> real \<Rightarrow> real \<Rightarrow> real \<Rightarrow> real \<Rightarrow> real \<Rightarrow> real \<Rightarrow> real \<Rightarrow> real \<Rightarrow> real" where
  "Mxreal_numerator x y z Mz Hkx Hky Hi Ms A D =
     (let q = MAG_VEC x y z in
      reduced_field q Ms Hi A
        * (Hkx * (1 + reduced_field q Ms Hi A * y * y / q / q)
           - Ms * Mz * x * z / q / q
               * (1 + reduced_field q Ms Hi A * DMI_length Ms D q * DMI_length Ms D q)
           - Hky * reduced_field q Ms Hi A * x * y / q / q))"

definition Mximag_numerator ::
  "real \<Rightarrow> real \<Rightarrow> real \<Rightarrow> real \<Rightarrow> real \<Rightarrow> real \<Rightarrow> real \<Rightarrow> real \<Rightarrow> real \<Rightarrow> real \<Rightarrow> real" where
  "Mximag_numerator x y z Mz Hkx Hky Hi Ms A D =
     (let q = MAG_VEC x y z in
      - reduced_field q Ms Hi A
        * (Ms * Mz * (1 + reduced_field q Ms Hi A) * DMI_length Ms D y
           + Hky * reduced_field q Ms Hi A * DMI_length Ms D z))"

definition Myreal_numerator ::
  "real \<Rightarrow> real \<Rightarrow> real \<Rightarrow> real \<Rightarrow> real \<Rightarrow> real \<Rightarrow> real \<Rightarrow> real \<Rightarrow> real \<Rightarrow> real \<Rightarrow> real" where
  "Myreal_numerator x y z Mz Hkx Hky Hi Ms A D =
     (let q = MAG_VEC x y z in
      reduced_field q Ms Hi A
        * (Hky * (1 + reduced_field q Ms Hi A * x * x / q / q)
           - Ms * Mz * y * z / q / q
               * (1 + reduced_field q Ms Hi A * DMI_length Ms D q * DMI_length Ms D q)
           - Hkx * reduced_field q Ms Hi A * x * y / q / q))"

definition Myimag_numerator ::
  "real \<Rightarrow> real \<Rightarrow> real \<Rightarrow> real \<Rightarrow> real \<Rightarrow> real \<Rightarrow> real \<Rightarrow> real \<Rightarrow> real \<Rightarrow> real \<Rightarrow> real" where
  "Myimag_numerator x y z Mz Hkx Hky Hi Ms A D =
     (let q = MAG_VEC x y z in
      reduced_field q Ms Hi A
        * (Ms * Mz * (1 + reduced_field q Ms Hi A) * DMI_length Ms D x
           - Hkx * reduced_field q Ms Hi A * DMI_length Ms D z))"

text \<open>
  The per-node form value as the specification words it: a channel is skipped
  when its weight is below \<open>1e-8\<close>, and every other channel contributes
  \<open>weight\<cdot>sld\<^sup>2\<close>.
\<close>

definition channel_term :: "real list \<Rightarrow> real list \<Rightarrow> nat \<Rightarrow> real" where
  "channel_term weights sld xs =
     (if weights ! xs < 1 / 10 ^ 8 then 0 else weights ! xs * (sld ! xs)\<^sup>2)"

definition form_skipping_below :: "real list \<Rightarrow> real list \<Rightarrow> real" where
  "form_skipping_below weights sld = (\<Sum>xs<8. channel_term weights sld xs)"

section \<open>Values at sample points\<close>

lemma MAG_VEC_122: "MAG_VEC 1 2 2 = 3"
proof -
  have "MAG_VEC 1 2 2 = sqrt (3\<^sup>2)" by (simp add: MAG_VEC_def)
  then show ?thesis by simp
qed

lemma MAG_VEC_340: "MAG_VEC 3 4 0 = 5"
proof -
  have "MAG_VEC 3 4 0 = sqrt (5\<^sup>2)" by (simp add: MAG_VEC_def)
  then show ?thesis by simp
qed

lemma reduced_field_no_exchange: "reduced_field q 1 1 0 = 1"
  by (simp add: reduced_field_def)

lemma shared_denominator_340: "shared_denominator 3 4 0 1 1 0 D = 2"
  by (simp add: shared_denominator_def MAG_VEC_340 reduced_field_no_exchange
      DMI_length_def Let_def)

lemma DMI_length_D0: "DMI_length Ms 0 p = 0"
  by (simp add: DMI_length_def)

lemma DMI_length_unit_D: "DMI_length 1 (1 / (8 * pi)) p = p"
  by (simp add: DMI_length_def M_PI_def)

section \<open>Effective radius\<close>

text \<open>
  C4. For all radius and thickness, \<open>radius_effective\<close> returns the radius
  exactly when the mode is 2 and radius + thickness for every other mode, so that
  mode 1 and the default agree; \<open>radius_effective(1, 50, 10) = 60\<close> and
  \<open>radius_effective(2, 50, 10) = 50\<close>.
\<close>

theorem radius_effective_modes:
  "radius_effective mode radius thickness = (if mode = 2 then radius else radius + thickness)
   \<and> radius_effective mode radius thickness
       = (if mode = 2 then radius else radius_effective 1 radius thickness)
   \<and> radius_effective 1 50 10 = 60
   \<and> radius_effective 2 50 10 = 50"
  by (simp add: radius_effective_def)

section \<open>Susceptibility\<close>

lemma reduced_field_max:
  "reduced_field q Ms Hi A = Ms / (max Hi (1 / 10 ^ 6) + 2 * A * 4 * M_PI / Ms * q * q * 10)"
  by (simp add: reduced_field_def max_def)

text \<open>
  C3. For every q, every Ms \<open>\<noteq>\<close> 0, every Hi \<open>\<ge>\<close> 0 and every A,
  \<open>reduced_field(q, Ms, Hi, A) = Ms / (Hi_eff + 2\<cdot>A\<cdot>4\<pi>/Ms\<cdot>q\<^sup>2\<cdot>10)\<close> with
  \<open>Hi_eff = max(Hi, 1e-6)\<close>; at Hi = 0 it is
  \<open>Ms / (1e-6 + 2\<cdot>A\<cdot>4\<pi>/Ms\<cdot>q\<^sup>2\<cdot>10)\<close>.
\<close>

theorem reduced_field_formula:
  "Ms \<noteq> 0 \<Longrightarrow> 0 \<le> Hi \<Longrightarrow>
   reduced_field q Ms Hi A = Ms / (max Hi (1 / 10 ^ 6) + 2 * A * 4 * pi / Ms * q\<^sup>2 * 10)
   \<and> reduced_field q Ms 0 A = Ms / (1 / 10 ^ 6 + 2 * A * 4 * pi / Ms * q\<^sup>2 * 10)"
  by (simp add: reduced_field_def M_PI_def max_def power2_eq_square mult.assoc)

theorem reduced_field_formula_witness:
  "(2::real) \<noteq> 0 \<and> (0::real) \<le> 3
   \<and> reduced_field 1 2 3 0 = 2 / (max 3 (1 / 10 ^ 6) + 2 * 0 * 4 * pi / 2 * 1\<^sup>2 * 10)
   \<and> reduced_field 1 2 0 0 = 2 / (1 / 10 ^ 6 + 2 * 0 * 4 * pi / 2 * 1\<^sup>2 * 10)"
  using reduced_field_formula [of 2 3 1 0] by simp

lemma reduced_field_negative_A_low: "reduced_field 1 1 0 (- 1) < 0"
proof -
  have "(1::real) / 10 ^ 6 < 80 * pi" using pi_ge_two by simp
  then show ?thesis
    by (simp add: reduced_field_def M_PI_def divide_less_0_iff)
qed

lemma reduced_field_negative_A_high: "0 < reduced_field 1 1 1000 (- 1)"
proof -
  have "80 * pi < 1000" using pi_less_4 by simp
  then show ?thesis
    by (simp add: reduced_field_def M_PI_def)
qed

text \<open>
  C8, as amended. At fixed q, for Ms \<open>>\<close> 0 and A \<open>\<ge>\<close> 0, \<open>reduced_field\<close> is
  non-increasing in Hi on Hi \<open>\<ge>\<close> 0: for all 0 \<open>\<le>\<close> Hi1 \<open>\<le>\<close> Hi2,
  \<open>reduced_field(q, Ms, Hi2, A) \<le> reduced_field(q, Ms, Hi1, A)\<close>.
\<close>

theorem reduced_field_antitone_in_Hi:
  assumes "0 < Ms" and "0 \<le> A" and "0 \<le> Hi1" and "Hi1 \<le> Hi2"
  shows "reduced_field q Ms Hi2 A \<le> reduced_field q Ms Hi1 A"
proof -
  let ?c = "2 * A * 4 * M_PI / Ms * q * q * 10"
  have "0 \<le> 2 * A * 4 * M_PI / Ms * (q * q) * 10"
    using assms(1,2) by (simp add: M_PI_def)
  then have c: "0 \<le> ?c" by (simp add: mult.assoc)
  have pos: "0 < max Hi1 (1 / 10 ^ 6) + ?c"
  proof -
    have "(0::real) < max Hi1 (1 / 10 ^ 6)" by (simp add: max_def)
    with c show ?thesis by linarith
  qed
  have le: "max Hi1 (1 / 10 ^ 6) + ?c \<le> max Hi2 (1 / 10 ^ 6) + ?c"
    using assms(4) by (simp add: max_def)
  have "Ms / (max Hi2 (1 / 10 ^ 6) + ?c) \<le> Ms / (max Hi1 (1 / 10 ^ 6) + ?c)"
    using pos le assms(1) by (intro divide_left_mono) (auto intro: mult_pos_pos)
  then show ?thesis by (simp only: reduced_field_max)
qed

theorem reduced_field_antitone_in_Hi_witness:
  "(0::real) < 1 \<and> (0::real) \<le> 0 \<and> (0::real) \<le> 1 \<and> (1::real) \<le> 2
   \<and> reduced_field 0 1 2 0 \<le> reduced_field 0 1 1 0
   \<and> reduced_field 0 1 2 0 = 1 / 2 \<and> reduced_field 0 1 1 0 = 1"
  using reduced_field_antitone_in_Hi [of 1 0 1 2 0]
  by (simp add: reduced_field_def)

text \<open>
  C8 as stated (every Ms \<open>\<noteq>\<close> 0, every A) fails. With Ms = -1, q = 0, A = 0 the
  value is \<open>-1/Hi\<close>, which grows from -1 at Hi = 1 to -1/2 at Hi = 2. With
  Ms = 1, q = 1, A = -1 the exchange term is \<open>-80\<pi>\<close>: the value is negative at
  Hi = 0 and positive at Hi = 1000. No division by zero occurs at either input.
\<close>

theorem reduced_field_not_antitone_counterexample:
  "((- 1::real) \<noteq> 0 \<and> (0::real) \<le> 1 \<and> (1::real) \<le> 2
      \<and> \<not> reduced_field 0 (- 1) 2 0 \<le> reduced_field 0 (- 1) 1 0)
   \<and> ((1::real) \<noteq> 0 \<and> (0::real) \<le> 0 \<and> (0::real) \<le> 1000
      \<and> \<not> reduced_field 1 1 1000 (- 1) \<le> reduced_field 1 1 0 (- 1))"
proof -
  have "\<not> reduced_field 0 (- 1) 2 0 \<le> reduced_field 0 (- 1) 1 0"
    by (simp add: reduced_field_def)
  moreover have "\<not> reduced_field 1 1 1000 (- 1) \<le> reduced_field 1 1 0 (- 1)"
    using reduced_field_negative_A_low reduced_field_negative_A_high by linarith
  ultimately show ?thesis by simp
qed

section \<open>DMI length\<close>

text \<open>
  C7. For all Ms \<open>\<noteq>\<close> 0, D and projection p,
  \<open>DMI_length(Ms, D, p) = 2\<cdot>D\<cdot>4\<pi>/Ms\<^sup>2\<cdot>p\<close>; it is linear in D, linear in p,
  and odd in the projection: \<open>DMI_length(Ms, D, -p) = -DMI_length(Ms, D, p)\<close>.
\<close>

theorem DMI_length_linear_odd:
  "Ms \<noteq> 0 \<Longrightarrow>
   DMI_length Ms D p = 2 * D * 4 * pi / (Ms\<^sup>2) * p
   \<and> DMI_length Ms (a * D1 + b * D2) p = a * DMI_length Ms D1 p + b * DMI_length Ms D2 p
   \<and> DMI_length Ms D (a * p1 + b * p2) = a * DMI_length Ms D p1 + b * DMI_length Ms D p2
   \<and> DMI_length Ms D (- p) = - DMI_length Ms D p"
  by (simp add: DMI_length_def M_PI_def power2_eq_square field_simps)

theorem DMI_length_linear_odd_witness:
  "(2::real) \<noteq> 0
   \<and> DMI_length 2 3 5 = 2 * 3 * 4 * pi / (2\<^sup>2) * 5
   \<and> DMI_length 2 (7 * 3 + 11 * 1) 5 = 7 * DMI_length 2 3 5 + 11 * DMI_length 2 1 5
   \<and> DMI_length 2 3 (7 * 5 + 11 * 1) = 7 * DMI_length 2 3 5 + 11 * DMI_length 2 3 1
   \<and> DMI_length 2 3 (- 5) = - DMI_length 2 3 5"
  using DMI_length_linear_odd [of 2 3 5 7 3 11 1 5 1] by simp

section \<open>Magnetization response\<close>

text \<open>
  The denominator written in each of the four C functions is the denominator of
  the specification.
\<close>

lemma denominator_code_eq_spec:
  "1 + reduced_field (MAG_VEC x y z) Ms Hi A * (x * x + y * y) / MAG_VEC x y z / MAG_VEC x y z
     - square (reduced_field (MAG_VEC x y z) Ms Hi A * DMI_length Ms D z)
   = shared_denominator x y z Hi Ms A D"
  by (simp add: shared_denominator_def square_def power2_eq_square Let_def)

lemma fqMxreal_quotient:
  "fqMxreal x y z Mz Hkx Hky Hi Ms A D
     = Mxreal_numerator x y z Mz Hkx Hky Hi Ms A D / shared_denominator x y z Hi Ms A D"
  unfolding fqMxreal_def Mxreal_numerator_def Let_def denominator_code_eq_spec ..

lemma fqMximag_quotient:
  "fqMximag x y z Mz Hkx Hky Hi Ms A D
     = Mximag_numerator x y z Mz Hkx Hky Hi Ms A D / shared_denominator x y z Hi Ms A D"
  unfolding fqMximag_def Mximag_numerator_def Let_def denominator_code_eq_spec ..

lemma fqMyreal_quotient:
  "fqMyreal x y z Mz Hkx Hky Hi Ms A D
     = Myreal_numerator x y z Mz Hkx Hky Hi Ms A D / shared_denominator x y z Hi Ms A D"
  unfolding fqMyreal_def Myreal_numerator_def Let_def denominator_code_eq_spec ..

lemma fqMyimag_quotient:
  "fqMyimag x y z Mz Hkx Hky Hi Ms A D
     = Myimag_numerator x y z Mz Hkx Hky Hi Ms A D / shared_denominator x y z Hi Ms A D"
  unfolding fqMyimag_def Myimag_numerator_def Let_def denominator_code_eq_spec ..

lemma shared_denominator_122: "shared_denominator 1 2 2 1 1 0 (1 / (8 * pi)) = - 22 / 9"
  by (simp add: shared_denominator_def MAG_VEC_122 reduced_field_no_exchange
      DMI_length_unit_D Let_def)

lemma Mxreal_numerator_122: "Mxreal_numerator 1 2 2 2 3 4 1 1 0 (1 / (8 * pi)) = - 1"
  by (simp add: Mxreal_numerator_def MAG_VEC_122 reduced_field_no_exchange
      DMI_length_unit_D Let_def)

lemma Mximag_numerator_122: "Mximag_numerator 1 2 2 2 3 4 1 1 0 (1 / (8 * pi)) = - 16"
  by (simp add: Mximag_numerator_def MAG_VEC_122 reduced_field_no_exchange
      DMI_length_unit_D Let_def)

lemma Myreal_numerator_122: "Myreal_numerator 1 2 2 2 3 4 1 1 0 (1 / (8 * pi)) = - 46 / 9"
  by (simp add: Myreal_numerator_def MAG_VEC_122 reduced_field_no_exchange
      DMI_length_unit_D Let_def)

lemma Myimag_numerator_122: "Myimag_numerator 1 2 2 2 3 4 1 1 0 (1 / (8 * pi)) = - 2"
  by (simp add: Myimag_numerator_def MAG_VEC_122 reduced_field_no_exchange
      DMI_length_unit_D Let_def)

text \<open>
  C2. With D = 0 both imaginary components vanish: for every (x, y, z) with
  q = |(x, y, z)| \<open>\<noteq>\<close> 0 and non-zero shared denominator, and for all Mz, Hkx,
  Hky, Hi, Ms \<open>\<noteq>\<close> 0 and A, \<open>fqMximag(x,y,z,Mz,Hkx,Hky,Hi,Ms,A,0) = 0\<close> and
  \<open>fqMyimag(x,y,z,Mz,Hkx,Hky,Hi,Ms,A,0) = 0\<close>.
\<close>

theorem imaginary_parts_vanish_without_DMI:
  "MAG_VEC x y z \<noteq> 0 \<Longrightarrow> shared_denominator x y z Hi Ms A 0 \<noteq> 0 \<Longrightarrow> Ms \<noteq> 0 \<Longrightarrow>
   fqMximag x y z Mz Hkx Hky Hi Ms A 0 = 0 \<and> fqMyimag x y z Mz Hkx Hky Hi Ms A 0 = 0"
  by (simp add: fqMximag_def fqMyimag_def DMI_length_D0 Let_def)

theorem imaginary_parts_vanish_without_DMI_witness:
  "MAG_VEC 3 4 0 \<noteq> 0 \<and> shared_denominator 3 4 0 1 1 0 0 \<noteq> 0 \<and> (1::real) \<noteq> 0
   \<and> fqMximag 3 4 0 2 3 4 1 1 0 0 = 0 \<and> fqMyimag 3 4 0 2 3 4 1 1 0 0 = 0"
  using imaginary_parts_vanish_without_DMI [of 3 4 0 1 1 0 2 3 4]
  by (simp add: MAG_VEC_340 shared_denominator_340)

text \<open>
  C5. With D = 0 and Hkx = Hky = 0, for every (x, y, z) with q = |(x, y, z)|
  \<open>\<noteq>\<close> 0 and for all Mz, Hi, Ms \<open>\<noteq>\<close> 0 and A, the real components are the
  longitudinal-transverse coupling term alone:
  \<open>fqMxreal = -Ms\<cdot>Mz\<cdot>x\<cdot>z/q\<^sup>2 \<cdot> \<chi> / (1 + \<chi>\<cdot>(x\<^sup>2+y\<^sup>2)/q\<^sup>2)\<close> with
  \<open>\<chi> = reduced_field(q, Ms, Hi, A)\<close>, and the same for \<open>fqMyreal\<close> with y in
  place of x in the product.
\<close>

theorem real_parts_reduce_to_coupling_term:
  "MAG_VEC x y z \<noteq> 0 \<Longrightarrow> Ms \<noteq> 0 \<Longrightarrow>
   fqMxreal x y z Mz 0 0 Hi Ms A 0
     = - Ms * Mz * x * z / (MAG_VEC x y z)\<^sup>2 * reduced_field (MAG_VEC x y z) Ms Hi A
         / (1 + reduced_field (MAG_VEC x y z) Ms Hi A * (x\<^sup>2 + y\<^sup>2) / (MAG_VEC x y z)\<^sup>2)
   \<and> fqMyreal x y z Mz 0 0 Hi Ms A 0
     = - Ms * Mz * y * z / (MAG_VEC x y z)\<^sup>2 * reduced_field (MAG_VEC x y z) Ms Hi A
         / (1 + reduced_field (MAG_VEC x y z) Ms Hi A * (x\<^sup>2 + y\<^sup>2) / (MAG_VEC x y z)\<^sup>2)"
  by (simp add: fqMxreal_def fqMyreal_def DMI_length_D0 square_def Let_def power2_eq_square)

theorem real_parts_reduce_to_coupling_term_witness:
  "MAG_VEC 1 2 2 \<noteq> 0 \<and> (1::real) \<noteq> 0
   \<and> fqMxreal 1 2 2 9 0 0 1 1 0 0 = - 9 / 7
   \<and> fqMyreal 1 2 2 9 0 0 1 1 0 0 = - 18 / 7"
  using real_parts_reduce_to_coupling_term [of 1 2 2 1 9 1 0]
  by (simp add: MAG_VEC_122 reduced_field_no_exchange)

text \<open>
  C6. Under the contract of the four functions (q = |(x, y, z)| \<open>\<noteq>\<close> 0,
  Ms \<open>\<noteq>\<close> 0 and a non-zero denominator), all four divide by one and the same
  denominator \<open>1 + \<chi>\<cdot>(x\<^sup>2+y\<^sup>2)/q\<^sup>2 - (\<chi>\<cdot>DMI_length(Ms, D, z))\<^sup>2\<close> with
  \<open>\<chi> = reduced_field(q, Ms, Hi, A)\<close>. The denominator depends on
  (x, y, z, Hi, Ms, A, D) only, not on Mz, Hkx, Hky; each function is its
  numerator over it, and denominator times function equals the function's
  numerator, for all Mz, Hkx, Hky.
\<close>

theorem shared_denominator_of_all_four:
  assumes "MAG_VEC x y z \<noteq> 0" and "Ms \<noteq> 0" and "shared_denominator x y z Hi Ms A D \<noteq> 0"
  shows "fqMxreal x y z Mz Hkx Hky Hi Ms A D
           = Mxreal_numerator x y z Mz Hkx Hky Hi Ms A D / shared_denominator x y z Hi Ms A D
       \<and> fqMximag x y z Mz Hkx Hky Hi Ms A D
           = Mximag_numerator x y z Mz Hkx Hky Hi Ms A D / shared_denominator x y z Hi Ms A D
       \<and> fqMyreal x y z Mz Hkx Hky Hi Ms A D
           = Myreal_numerator x y z Mz Hkx Hky Hi Ms A D / shared_denominator x y z Hi Ms A D
       \<and> fqMyimag x y z Mz Hkx Hky Hi Ms A D
           = Myimag_numerator x y z Mz Hkx Hky Hi Ms A D / shared_denominator x y z Hi Ms A D
       \<and> shared_denominator x y z Hi Ms A D * fqMxreal x y z Mz Hkx Hky Hi Ms A D
           = Mxreal_numerator x y z Mz Hkx Hky Hi Ms A D
       \<and> shared_denominator x y z Hi Ms A D * fqMximag x y z Mz Hkx Hky Hi Ms A D
           = Mximag_numerator x y z Mz Hkx Hky Hi Ms A D
       \<and> shared_denominator x y z Hi Ms A D * fqMyreal x y z Mz Hkx Hky Hi Ms A D
           = Myreal_numerator x y z Mz Hkx Hky Hi Ms A D
       \<and> shared_denominator x y z Hi Ms A D * fqMyimag x y z Mz Hkx Hky Hi Ms A D
           = Myimag_numerator x y z Mz Hkx Hky Hi Ms A D"
  using assms(3)
  by (simp add: fqMxreal_quotient fqMximag_quotient fqMyreal_quotient fqMyimag_quotient)

text \<open>
  At (x, y, z) = (1, 2, 2), Hi = 1, Ms = 1, A = 0, D = 1/(8\<pi>): q = 3,
  \<open>\<chi>\<close> = 1 and DMI_length(Ms, D, p) = p, so the DMI term of the denominator is
  \<open>(1\<cdot>2)\<^sup>2 = 4\<close> and the denominator is 1 + 5/9 - 4 = -22/9.
\<close>

theorem shared_denominator_of_all_four_witness:
  "MAG_VEC 1 2 2 \<noteq> 0 \<and> (1::real) \<noteq> 0
   \<and> shared_denominator 1 2 2 1 1 0 (1 / (8 * pi)) \<noteq> 0
   \<and> shared_denominator 1 2 2 1 1 0 (1 / (8 * pi)) = - 22 / 9
   \<and> shared_denominator 1 2 2 1 1 0 (1 / (8 * pi)) * fqMxreal 1 2 2 2 3 4 1 1 0 (1 / (8 * pi))
       = Mxreal_numerator 1 2 2 2 3 4 1 1 0 (1 / (8 * pi))
   \<and> shared_denominator 1 2 2 1 1 0 (1 / (8 * pi)) * fqMximag 1 2 2 2 3 4 1 1 0 (1 / (8 * pi))
       = Mximag_numerator 1 2 2 2 3 4 1 1 0 (1 / (8 * pi))
   \<and> shared_denominator 1 2 2 1 1 0 (1 / (8 * pi)) * fqMyreal 1 2 2 2 3 4 1 1 0 (1 / (8 * pi))
       = Myreal_numerator 1 2 2 2 3 4 1 1 0 (1 / (8 * pi))
   \<and> shared_denominator 1 2 2 1 1 0 (1 / (8 * pi)) * fqMyimag 1 2 2 2 3 4 1 1 0 (1 / (8 * pi))
       = Myimag_numerator 1 2 2 2 3 4 1 1 0 (1 / (8 * pi))
   \<and> fqMxreal 1 2 2 2 3 4 1 1 0 (1 / (8 * pi)) = 9 / 22
   \<and> fqMximag 1 2 2 2 3 4 1 1 0 (1 / (8 * pi)) = 72 / 11
   \<and> fqMyreal 1 2 2 2 3 4 1 1 0 (1 / (8 * pi)) = 23 / 11
   \<and> fqMyimag 1 2 2 2 3 4 1 1 0 (1 / (8 * pi)) = 9 / 11"
proof -
  have q: "MAG_VEC 1 2 2 \<noteq> 0" by (simp add: MAG_VEC_122)
  have m: "(1::real) \<noteq> 0" by simp
  have d: "shared_denominator 1 2 2 1 1 0 (1 / (8 * pi)) \<noteq> 0"
    by (simp add: shared_denominator_122)
  note t = shared_denominator_of_all_four [OF q m d, of 2 3 4]
  show ?thesis
    using q d t
    by (simp add: shared_denominator_122 Mxreal_numerator_122 Mximag_numerator_122
        Myreal_numerator_122 Myimag_numerator_122)
qed

text \<open>
  C10. \<open>fqMximag\<close> does not depend on Hkx and \<open>fqMyimag\<close> does not depend on
  Hky: for all x, y, z with q \<open>\<noteq>\<close> 0 and non-zero denominator, Mz, Hi,
  Ms \<open>\<noteq>\<close> 0, A, D, any two values of Hkx give the same \<open>fqMximag\<close> and any two
  values of Hky give the same \<open>fqMyimag\<close>.
\<close>

theorem imaginary_parts_ignore_own_anisotropy:
  "MAG_VEC x y z \<noteq> 0 \<Longrightarrow> shared_denominator x y z Hi Ms A D \<noteq> 0 \<Longrightarrow> Ms \<noteq> 0 \<Longrightarrow>
   fqMximag x y z Mz Hkx1 Hky Hi Ms A D = fqMximag x y z Mz Hkx2 Hky Hi Ms A D
   \<and> fqMyimag x y z Mz Hkx Hky1 Hi Ms A D = fqMyimag x y z Mz Hkx Hky2 Hi Ms A D"
  by (simp add: fqMximag_def fqMyimag_def)

theorem imaginary_parts_ignore_own_anisotropy_witness:
  "MAG_VEC 3 4 0 \<noteq> 0 \<and> shared_denominator 3 4 0 1 1 0 5 \<noteq> 0 \<and> (1::real) \<noteq> 0
   \<and> fqMximag 3 4 0 2 3 4 1 1 0 5 = fqMximag 3 4 0 2 7 4 1 1 0 5
   \<and> fqMyimag 3 4 0 2 3 4 1 1 0 5 = fqMyimag 3 4 0 2 3 9 1 1 0 5"
  using imaginary_parts_ignore_own_anisotropy [of 3 4 0 1 1 0 5 2 3 4 7 3 4 9]
  by (simp add: MAG_VEC_340 shared_denominator_340)

section \<open>Channel accumulation\<close>

lemma channel_step_add:
  "channel_step weights sld xs form
     = form + (if weights ! xs > 1 / 10 ^ 8 then weights ! xs * (sld ! xs)\<^sup>2 else 0)"
  by (simp add: channel_step_def power2_eq_square)

lemma channel_fold_sum:
  "fold (channel_step weights sld) [0..<n] a
     = a + (\<Sum>xs<n. if weights ! xs > 1 / 10 ^ 8 then weights ! xs * (sld ! xs)\<^sup>2 else 0)"
  by (induction n) (simp_all add: channel_step_add)

lemma sum_lessThan_8:
  "(\<Sum>xs<8. f xs) = (f 0 + f 1 + f 2 + f 3 + f 4 + f 5 + f 6 + f (7::nat) :: real)"
  by (simp add: eval_nat_numeral lessThan_Suc)

text \<open>
  C9, as amended. In the per-node channel accumulation of both \<open>Iq\<close> and
  \<open>Iqxy\<close>, a channel is skipped (leaves the form value unchanged) exactly when
  its weight is not above \<open>1e-8\<close>, that is below or equal to it; every channel
  whose weight is above \<open>1e-8\<close> adds \<open>weight\<cdot>sld\<^sup>2\<close>, and the form value is the
  sum of these contributions over the 8 channels.
\<close>

theorem channel_skipped_iff_not_above:
  "(weights ! xs \<le> 1 / 10 ^ 8 \<longrightarrow> channel_step weights sld xs form = form)
   \<and> (weights ! xs > 1 / 10 ^ 8 \<longrightarrow>
        channel_step weights sld xs form = form + weights ! xs * (sld ! xs)\<^sup>2)
   \<and> channel_loop weights sld
       = (\<Sum>xs<8. if weights ! xs > 1 / 10 ^ 8 then weights ! xs * (sld ! xs)\<^sup>2 else 0)"
  by (simp add: channel_step_add channel_loop_def channel_fold_sum)

theorem channel_skipped_iff_not_above_witness:
  "([1 / 10 ^ 8, 1 / 4, 0, 0, 0, 0, 0, 0] ! 0 \<le> (1 / 10 ^ 8 :: real)
      \<and> channel_step [1 / 10 ^ 8, 1 / 4, 0, 0, 0, 0, 0, 0] [1, 2, 3, 4, 5, 6, 7, 8] 0 5 = 5)
   \<and> ([1 / 10 ^ 8, 1 / 4, 0, 0, 0, 0, 0, 0] ! 1 > (1 / 10 ^ 8 :: real)
      \<and> channel_step [1 / 10 ^ 8, 1 / 4, 0, 0, 0, 0, 0, 0] [1, 2, 3, 4, 5, 6, 7, 8] 1 5
          = 5 + 1 / 4 * 2\<^sup>2)
   \<and> channel_loop [1 / 10 ^ 8, 1 / 4, 0, 0, 0, 0, 0, 0] [1, 2, 3, 4, 5, 6, 7, 8] = 1"
proof -
  let ?w = "[1 / 10 ^ 8, 1 / 4, 0, 0, 0, 0, 0, 0 :: real]"
  let ?s = "[1, 2, 3, 4, 5, 6, 7, 8 :: real]"
  have a: "?w ! 0 \<le> 1 / 10 ^ 8" by simp
  have b: "?w ! 1 > 1 / 10 ^ 8" by simp
  note t0 = channel_skipped_iff_not_above [of ?w 0 ?s 5]
  note t1 = channel_skipped_iff_not_above [of ?w 1 ?s 5]
  have s0: "channel_step ?w ?s 0 5 = 5" using t0 a by blast
  have s1: "channel_step ?w ?s 1 5 = 5 + ?w ! 1 * (?s ! 1)\<^sup>2" using t1 b by blast
  have l: "channel_loop ?w ?s
             = (\<Sum>xs<8. if ?w ! xs > 1 / 10 ^ 8 then ?w ! xs * (?s ! xs)\<^sup>2 else 0)"
    using t0 by blast
  have l1: "channel_loop ?w ?s = 1"
    unfolding l sum_lessThan_8 by (simp add: eval_nat_numeral)
  show ?thesis using a b s0 s1 l1 by simp
qed

text \<open>
  C9 as stated (skipped exactly when the weight is below \<open>1e-8\<close>) fails at a
  weight equal to \<open>1e-8\<close>: the weight is not below \<open>1e-8\<close>, so the claim counts
  \<open>1e-8\<cdot>1\<^sup>2\<close> for channel 0, while the guard \<open>weights[0] > 1.0e-8\<close> is false
  and the loop adds nothing.
\<close>

theorem channel_at_threshold_counterexample:
  "channel_loop [1 / 10 ^ 8, 0, 0, 0, 0, 0, 0, 0] [1, 0, 0, 0, 0, 0, 0, 0] = 0
   \<and> form_skipping_below [1 / 10 ^ 8, 0, 0, 0, 0, 0, 0, 0] [1, 0, 0, 0, 0, 0, 0, 0] = 1 / 10 ^ 8
   \<and> channel_loop [1 / 10 ^ 8, 0, 0, 0, 0, 0, 0, 0] [1, 0, 0, 0, 0, 0, 0, 0]
       \<noteq> form_skipping_below [1 / 10 ^ 8, 0, 0, 0, 0, 0, 0, 0] [1, 0, 0, 0, 0, 0, 0, 0]"
proof -
  let ?w = "[1 / 10 ^ 8, 0, 0, 0, 0, 0, 0, 0 :: real]"
  let ?s = "[1, 0, 0, 0, 0, 0, 0, 0 :: real]"
  have "channel_loop ?w ?s = 0"
    unfolding channel_loop_def channel_fold_sum sum_lessThan_8 by (simp add: eval_nat_numeral)
  moreover have "form_skipping_below ?w ?s = 1 / 10 ^ 8"
    unfolding form_skipping_below_def sum_lessThan_8
    by (simp add: channel_term_def eval_nat_numeral)
  ultimately show ?thesis by simp
qed

section \<open>The zero scattering vector in the 2D evaluator\<close>

text \<open>
  C1. For every input (qx, qy) with |(qx, qy)| \<open>\<le>\<close> 1e-16 and arbitrary other
  parameters, \<open>Iqxy\<close> should return the defined value 0.0. The code does not: at
  qx = qy = 0 the test \<open>q > 1.0e-16\<close> fails and the function ends without a
  \<open>return\<close>, so the call has no defined value, and in particular not the value 0.
\<close>

theorem Iqxy_zero_vector_no_value:
  "Iqxy lib 0 0 radius thickness core_nuc shell_nuc solvent_nuc core_Ms shell_Ms solvent_Ms
        core_hk Hi Ms A D up_i up_f alpha beta = None
   \<and> Iqxy lib 0 0 radius thickness core_nuc shell_nuc solvent_nuc core_Ms shell_Ms solvent_Ms
        core_hk Hi Ms A D up_i up_f alpha beta \<noteq> Some 0"
  by (simp add: Iqxy_def MAG_VEC_def)

end
